theory Spec2Isabelle
  imports Main "HOL-Library.AList"
begin

section \<open>Values, documents and the response envelope\<close>

text \<open>
  Values that travel through the handlers: what \<^verbatim>\<open>request.json()\<close> parses (null, booleans,
  numbers, strings, arrays, objects) and, in stored documents, the driver's \<^verbatim>\<open>ObjectId\<close> and
  \<^verbatim>\<open>Date\<close>. No handler computes with a number or a date, so a number is an \<open>int\<close> and a date a
  \<open>nat\<close>. An identifier is kept as its lower-case hexadecimal text: two identifiers are equal
  exactly when their twelve bytes are. An object is an association list read with \<open>map_of\<close>.
\<close>

datatype bson =
    JNull
  | JBool bool
  | JNum int
  | JStr string
  | JOid string
  | JDate nat
  | JArr "bson list"
  | JObj "(string \<times> bson) list"

type_synonym document = "(string \<times> bson) list"

text \<open>The body every handler returns: \<^verbatim>\<open>{ status, message?, error?, data? }\<close>.\<close>

record envelope =
  status :: nat
  message :: "string option"
  error :: "string option"
  data :: "bson option"

record response =
  transport :: nat
  body :: envelope

text \<open>
  \<^verbatim>\<open>NextResponse.json(body)\<close> answers with transport status 200;
  \<^verbatim>\<open>NextResponse.json(body, { status: n })\<close> with transport status \<open>n\<close>.
\<close>

definition NextResponse_json :: "envelope \<Rightarrow> nat option \<Rightarrow> response" where
  "NextResponse_json b init =
     \<lparr>transport = (case init of None \<Rightarrow> 200 | Some n \<Rightarrow> n), body = b\<rparr>"

text \<open>JavaScript truthiness of a property read; \<open>None\<close> is \<^verbatim>\<open>undefined\<close>.\<close>

fun truthy :: "bson option \<Rightarrow> bool" where
  "truthy None = False"
| "truthy (Some JNull) = False"
| "truthy (Some (JBool b)) = b"
| "truthy (Some (JNum n)) = (n \<noteq> 0)"
| "truthy (Some (JStr s)) = (s \<noteq> [])"
| "truthy (Some (JOid x)) = True"
| "truthy (Some (JDate t)) = True"
| "truthy (Some (JArr xs)) = True"
| "truthy (Some (JObj kvs)) = True"

text \<open>
  \<^verbatim>\<open>body.k\<close> on a value that is not null: an object gives its member, every other parsed value
  has no such property. Reading a property of null throws; the handlers below either test
  \<^verbatim>\<open>!body\<close> first or have the throw written out.
\<close>

fun get_prop :: "bson \<Rightarrow> string \<Rightarrow> bson option" where
  "get_prop (JObj kvs) k = map_of kvs k"
| "get_prop _ k = None"

section \<open>The identifier validator\<close>

text \<open>
  Modelled from the spec: \<^verbatim>\<open>ObjectId.isValid\<close> and \<^verbatim>\<open>new ObjectId\<close> belong to the store's driver,
  which is not part of the repository. The specification fixes the canonical format as a
  string of 24 hexadecimal characters.
\<close>

definition is_hex :: "char \<Rightarrow> bool" where
  "is_hex c = (c \<in> set ''0123456789abcdefABCDEF'')"

definition ObjectId_isValid :: "string \<Rightarrow> bool" where
  "ObjectId_isValid s = (length s = 24 \<and> list_all is_hex s)"

definition lower_hex :: "char \<Rightarrow> char" where
  "lower_hex c = (case map_of (zip ''ABCDEF'' ''abcdef'') c of Some l \<Rightarrow> l | None \<Rightarrow> c)"

definition ObjectId_new :: "string \<Rightarrow> bson" where
  "ObjectId_new s = JOid (map lower_hex s)"

section \<open>The document store\<close>

text \<open>
  Modelled from the spec: the store is an external collaborator offering
  \<^verbatim>\<open>find\<close>, \<^verbatim>\<open>findOne\<close>, \<^verbatim>\<open>updateOne\<close> and \<^verbatim>\<open>deleteOne\<close> on three collections. A collection is
  the list of its documents in the store's natural order. A query is a list of conditions;
  a key is a field name (\<open>Fld\<close>) or, for \<^verbatim>\<open>'comments._id'\<close>, a member of an element of an
  array field (\<open>Elem\<close>). In an update the same \<open>Elem\<close> key stands for \<^verbatim>\<open>'comments.$.text'\<close>: the
  member of the first array element that the query matched. A field condition is equality
  with the stored value.
\<close>

datatype coll = Theaters | Movies | Comments

datatype path = Fld string | Elem string string

type_synonym query = "(path \<times> bson) list"

datatype store_call =
    Find coll query "nat option"
  | FindOne coll query
  | UpdateOne coll query query
  | DeleteOne coll query

record database =
  theaters :: "document list"
  movies :: "document list"
  comments :: "document list"

text \<open>
  What a handler runs in: the calls it has issued so far, in order, and the database.
\<close>

record state =
  calls :: "store_call list"
  db :: database

text \<open>
  What a handler cannot control: whether \<^verbatim>\<open>clientPromise\<close> resolves or rejects (with a
  message), which store calls throw (with a message), and the clock read by \<^verbatim>\<open>new Date()\<close>.
\<close>

record env =
  clientPromise :: "string + unit"
  throws :: "store_call \<Rightarrow> string option"
  now :: nat

text \<open>\<^verbatim>\<open>request.json()\<close>: the parsed body, or the message of the error it throws.\<close>

record request =
  json :: "string + bson"

fun collection :: "database \<Rightarrow> coll \<Rightarrow> document list" where
  "collection d Theaters = theaters d"
| "collection d Movies = movies d"
| "collection d Comments = comments d"

fun put_collection :: "coll \<Rightarrow> document list \<Rightarrow> database \<Rightarrow> database" where
  "put_collection Theaters ds d = d\<lparr>theaters := ds\<rparr>"
| "put_collection Movies ds d = d\<lparr>movies := ds\<rparr>"
| "put_collection Comments ds d = d\<lparr>comments := ds\<rparr>"

definition elem_has :: "string \<Rightarrow> bson \<Rightarrow> bson \<Rightarrow> bool" where
  "elem_has k v x = (case x of JObj kvs \<Rightarrow> map_of kvs k = Some v | _ \<Rightarrow> False)"

fun holds :: "document \<Rightarrow> path \<times> bson \<Rightarrow> bool" where
  "holds d (Fld k, v) = (map_of d k = Some v)"
| "holds d (Elem a k, v) =
     (case map_of d a of Some (JArr xs) \<Rightarrow> list_ex (elem_has k v) xs | _ \<Rightarrow> False)"

definition matches :: "query \<Rightarrow> document \<Rightarrow> bool" where
  "matches q d = list_all (holds d) q"

fun index_of :: "('a \<Rightarrow> bool) \<Rightarrow> 'a list \<Rightarrow> nat option" where
  "index_of P [] = None"
| "index_of P (x # xs) =
     (if P x then Some 0 else (case index_of P xs of None \<Rightarrow> None | Some i \<Rightarrow> Some (Suc i)))"

text \<open>The position \<^verbatim>\<open>$\<close> stands for: the first element matched by the query's array condition.\<close>

fun positional :: "query \<Rightarrow> document \<Rightarrow> nat option" where
  "positional [] d = None"
| "positional ((Fld k, v) # q) d = positional q d"
| "positional ((Elem a k, v) # q) d =
     (case map_of d a of Some (JArr xs) \<Rightarrow> index_of (elem_has k v) xs | _ \<Rightarrow> None)"

fun set_member :: "string \<Rightarrow> bson \<Rightarrow> bson \<Rightarrow> bson" where
  "set_member k v (JObj kvs) = JObj (AList.update k v kvs)"
| "set_member k v x = x"

fun set_path :: "nat option \<Rightarrow> path \<times> bson \<Rightarrow> document \<Rightarrow> document" where
  "set_path pos (Fld k, v) d = AList.update k v d"
| "set_path pos (Elem a k, v) d =
     (case (map_of d a, pos) of
        (Some (JArr xs), Some i) \<Rightarrow>
          (if i < length xs then AList.update a (JArr (xs[i := set_member k v (xs ! i)])) d
           else d)
      | _ \<Rightarrow> d)"

text \<open>
  \<^verbatim>\<open>{ $set: u }\<close> on a document matched by \<open>q\<close>. The entries are applied from the last to the
  first, so that for a key written twice the first entry stands, as it does for \<open>map_of\<close>; a
  parsed object has each key once.
\<close>

definition apply_set :: "query \<Rightarrow> query \<Rightarrow> document \<Rightarrow> document" where
  "apply_set q u d = foldr (set_path (positional q d)) u d"

fun update_first :: "('a \<Rightarrow> bool) \<Rightarrow> ('a \<Rightarrow> 'a) \<Rightarrow> 'a list \<Rightarrow> 'a list" where
  "update_first P f [] = []"
| "update_first P f (x # xs) = (if P x then f x # xs else x # update_first P f xs)"

fun remove_first :: "('a \<Rightarrow> bool) \<Rightarrow> 'a list \<Rightarrow> 'a list" where
  "remove_first P [] = []"
| "remove_first P (x # xs) = (if P x then xs else x # remove_first P xs)"

record update_result =
  matchedCount :: nat
  modifiedCount :: nat

text \<open>
  An awaited step gives the thrown message (\<open>Inl\<close>) or its value, and the state after it.
  A store call is recorded when it is issued; one that throws leaves the database as it was.
\<close>

type_synonym 'a io = "(string + 'a) \<times> state"

definition issue :: "store_call \<Rightarrow> state \<Rightarrow> state" where
  "issue c s = s\<lparr>calls := calls s @ [c]\<rparr>"

text \<open>
  Modelled from the spec: the four primitives of the store client. \<^verbatim>\<open>find(q).toArray()\<close> gives
  the matching documents in the store's order, \<^verbatim>\<open>.limit(n)\<close> the first \<open>n\<close> of them;
  \<^verbatim>\<open>findOne\<close> gives the first match or null; \<^verbatim>\<open>updateOne\<close> and \<^verbatim>\<open>deleteOne\<close> act on the first match
  and report whether there was one.
\<close>

definition find_docs :: "env \<Rightarrow> coll \<Rightarrow> query \<Rightarrow> nat option \<Rightarrow> state \<Rightarrow> document list io" where
  "find_docs e c q lim s =
     (case throws e (Find c q lim) of
        Some msg \<Rightarrow> (Inl msg, issue (Find c q lim) s)
      | None \<Rightarrow>
          (let ds = filter (matches q) (collection (db s) c)
           in (Inr (case lim of None \<Rightarrow> ds | Some n \<Rightarrow> take n ds), issue (Find c q lim) s)))"

definition findOne :: "env \<Rightarrow> coll \<Rightarrow> query \<Rightarrow> state \<Rightarrow> document option io" where
  "findOne e c q s =
     (case throws e (FindOne c q) of
        Some msg \<Rightarrow> (Inl msg, issue (FindOne c q) s)
      | None \<Rightarrow> (Inr (List.find (matches q) (collection (db s) c)), issue (FindOne c q) s))"

definition updateOne :: "env \<Rightarrow> coll \<Rightarrow> query \<Rightarrow> query \<Rightarrow> state \<Rightarrow> update_result io" where
  "updateOne e c q u s =
     (case throws e (UpdateOne c q u) of
        Some msg \<Rightarrow> (Inl msg, issue (UpdateOne c q u) s)
      | None \<Rightarrow>
          (let ds = collection (db s) c;
               ds' = update_first (matches q) (apply_set q u) ds
           in (Inr \<lparr>matchedCount = (if list_ex (matches q) ds then 1 else 0),
                    modifiedCount = (if ds' = ds then 0 else 1)\<rparr>,
               issue (UpdateOne c q u) (s\<lparr>db := put_collection c ds' (db s)\<rparr>))))"

definition deleteOne :: "env \<Rightarrow> coll \<Rightarrow> query \<Rightarrow> state \<Rightarrow> nat io" where
  "deleteOne e c q s =
     (case throws e (DeleteOne c q) of
        Some msg \<Rightarrow> (Inl msg, issue (DeleteOne c q) s)
      | None \<Rightarrow>
          (let ds = collection (db s) c
           in (Inr (if list_ex (matches q) ds then 1 else 0),
               issue (DeleteOne c q) (s\<lparr>db := put_collection c (remove_first (matches q) ds) (db s)\<rparr>))))"

text \<open>\<^verbatim>\<open>await clientPromise\<close> and \<^verbatim>\<open>await request.json()\<close> touch neither the log nor the database.\<close>

definition connect :: "env \<Rightarrow> state \<Rightarrow> unit io" where
  "connect e s = (clientPromise e, s)"

definition request_json :: "request \<Rightarrow> state \<Rightarrow> bson io" where
  "request_json r s = (json r, s)"

text \<open>
  \<open>await m f\<close>: run the step, and go on with its value unless it threw.
  \<open>try_catch m h\<close>: the handler's \<^verbatim>\<open>try { ... } catch (error) { return h(error.message) }\<close>.
\<close>

definition await :: "'a io \<Rightarrow> ('a \<Rightarrow> state \<Rightarrow> 'b io) \<Rightarrow> 'b io" where
  "await m f = (case m of (Inl msg, s) \<Rightarrow> (Inl msg, s) | (Inr v, s) \<Rightarrow> f v s)"

definition return :: "response \<Rightarrow> state \<Rightarrow> response io" where
  "return r s = (Inr r, s)"

definition try_catch :: "response io \<Rightarrow> (string \<Rightarrow> response) \<Rightarrow> response \<times> state" where
  "try_catch m h = (case m of (Inl msg, s) \<Rightarrow> (h msg, s) | (Inr r, s) \<Rightarrow> (r, s))"

text \<open>\<^verbatim>\<open>typeof\<close> of a property read, and what the driver stores for it.\<close>

fun typeof :: "bson option \<Rightarrow> string" where
  "typeof None = ''undefined''"
| "typeof (Some (JBool b)) = ''boolean''"
| "typeof (Some (JNum n)) = ''number''"
| "typeof (Some (JStr s)) = ''string''"
| "typeof (Some _) = ''object''"

fun stored :: "bson option \<Rightarrow> bson" where
  "stored None = JNull"
| "stored (Some v) = v"

text \<open>\<^verbatim>\<open>{ $set: body }\<close>: every member of the parsed body becomes a field to write.\<close>

fun set_body :: "bson \<Rightarrow> query" where
  "set_body (JObj kvs) = map (\<lambda>(k, v). (Fld k, v)) kvs"
| "set_body _ = []"

section \<open>The list handlers\<close>

text \<open>\<^verbatim>\<open>src/unnamed/part_000\<close> (\<^verbatim>\<open>app/api/theaters/route.ts\<close>), \<^verbatim>\<open>GET\<close>.\<close>

definition part_000_GET :: "env \<Rightarrow> state \<Rightarrow> response \<times> state" where
  "part_000_GET e s =
     try_catch
       (await (connect e s) (\<lambda>client s.
        await (find_docs e Theaters [] (Some 10) s) (\<lambda>found.
        return (NextResponse_json
          \<lparr>status = 200, message = None, error = None, data = Some (JArr (map JObj found))\<rparr>
          None))))
       (\<lambda>msg. NextResponse_json
          \<lparr>status = 500, message = Some ''Erreur interne du serveur'', error = Some msg,
           data = None\<rparr> None)"

text \<open>\<^verbatim>\<open>src/app/api/movies/route.ts\<close>: \<^verbatim>\<open>GET\<close>, \<^verbatim>\<open>POST\<close>, \<^verbatim>\<open>PUT\<close>, \<^verbatim>\<open>DELETE\<close>.\<close>

definition movies_GET :: "env \<Rightarrow> state \<Rightarrow> response \<times> state" where
  "movies_GET e s =
     try_catch
       (await (connect e s) (\<lambda>client s.
        await (find_docs e Movies [] (Some 10) s) (\<lambda>found.
        return (NextResponse_json
          \<lparr>status = 200, message = None, error = None, data = Some (JArr (map JObj found))\<rparr>
          None))))
       (\<lambda>msg. NextResponse_json
          \<lparr>status = 500, message = Some ''Internal Server Error'', error = Some msg,
           data = None\<rparr> None)"

definition movies_POST :: "state \<Rightarrow> response \<times> state" where
  "movies_POST s =
     (NextResponse_json
        \<lparr>status = 405, message = Some ''Method Not Allowed'',
         error = Some ''POST method is not supported'', data = None\<rparr> None, s)"

definition movies_PUT :: "state \<Rightarrow> response \<times> state" where
  "movies_PUT s =
     (NextResponse_json
        \<lparr>status = 405, message = Some ''Method Not Allowed'',
         error = Some ''PUT method is not supported'', data = None\<rparr> None, s)"

definition movies_DELETE :: "state \<Rightarrow> response \<times> state" where
  "movies_DELETE s =
     (NextResponse_json
        \<lparr>status = 405, message = Some ''Method Not Allowed'',
         error = Some ''DELETE method is not supported'', data = None\<rparr> None, s)"

section \<open>The fetch handlers\<close>

text \<open>\<^verbatim>\<open>src/app/api/movies/[idMovie]/comments/route.ts\<close>, \<^verbatim>\<open>GET\<close>.\<close>

definition comments_GET :: "env \<Rightarrow> string \<Rightarrow> state \<Rightarrow> response \<times> state" where
  "comments_GET e idMovie s =
     try_catch
       (await (connect e s) (\<lambda>client s.
        if \<not> ObjectId_isValid idMovie then
          return (NextResponse_json
            \<lparr>status = 400, message = Some ''Invalid movie ID'',
             error = Some ''ID format is incorrect'', data = None\<rparr> None) s
        else
          await (find_docs e Comments [(Fld ''movie_id'', ObjectId_new idMovie)] None s)
            (\<lambda>found.
          return (NextResponse_json
            \<lparr>status = 200, message = None, error = None,
             data = Some (JObj [(''comments'', JArr (map JObj found))])\<rparr> None))))
       (\<lambda>msg. NextResponse_json
          \<lparr>status = 500, message = Some ''Internal Server Error'', error = Some msg,
           data = None\<rparr> None)"

text \<open>
  \<^verbatim>\<open>src/app/api/theaters/[idTheater]/route.ts\<close>, \<^verbatim>\<open>GET\<close>: every answer goes out with transport
  status 200.
\<close>

definition theater_GET :: "env \<Rightarrow> string \<Rightarrow> state \<Rightarrow> response \<times> state" where
  "theater_GET e idTheater s =
     try_catch
       (await (connect e s) (\<lambda>client s.
        if \<not> ObjectId_isValid idTheater then
          return (NextResponse_json
            \<lparr>status = 400, message = Some ''Invalid Theaters ID'',
             error = Some ''ID format is incorrect'', data = None\<rparr> None) s
        else
          await (findOne e Theaters [(Fld ''_id'', ObjectId_new idTheater)] s)
            (\<lambda>theater.
          case theater of
            None \<Rightarrow>
              return (NextResponse_json
                \<lparr>status = 404, message = Some ''Theater not found'',
                 error = Some ''No Theater found with the given ID'', data = None\<rparr> None)
          | Some t \<Rightarrow>
              return (NextResponse_json
                \<lparr>status = 200, message = None, error = None,
                 data = Some (JObj [(''theater'', JObj t)])\<rparr> None))))
       (\<lambda>msg. NextResponse_json
          \<lparr>status = 500, message = Some ''Internal Server Error'', error = Some msg,
           data = None\<rparr> None)"

text \<open>
  \<^verbatim>\<open>src/unnamed/part_001\<close> (\<^verbatim>\<open>app/api/theaters/[idTheater]/route.ts\<close>), \<^verbatim>\<open>GET\<close>: an error answer
  carries its status on the transport too.
\<close>

definition part_001_GET :: "env \<Rightarrow> string \<Rightarrow> state \<Rightarrow> response \<times> state" where
  "part_001_GET e idTheater s =
     try_catch
       (await (connect e s) (\<lambda>client s.
        if \<not> ObjectId_isValid idTheater then
          return (NextResponse_json
            \<lparr>status = 400, message = Some ''Invalid theater ID'',
             error = Some ''ID format is incorrect'', data = None\<rparr> (Some 400)) s
        else
          await (findOne e Theaters [(Fld ''_id'', ObjectId_new idTheater)] s)
            (\<lambda>theater.
          case theater of
            None \<Rightarrow>
              return (NextResponse_json
                \<lparr>status = 404, message = Some ''Theater not found'',
                 error = Some ''No theater found with the given ID'', data = None\<rparr> (Some 404))
          | Some t \<Rightarrow>
              return (NextResponse_json
                \<lparr>status = 200, message = None, error = None,
                 data = Some (JObj [(''theater'', JObj t)])\<rparr> None))))
       (\<lambda>msg. NextResponse_json
          \<lparr>status = 500, message = Some ''Internal Server Error'', error = Some msg,
           data = None\<rparr> (Some 500))"

section \<open>The handlers of one comment\<close>

text \<open>
  \<^verbatim>\<open>src/app/api/movies/[idMovie]/comments/[idComment]/route.ts\<close>: \<^verbatim>\<open>GET\<close>, \<^verbatim>\<open>POST\<close>, \<^verbatim>\<open>DELETE\<close>
  and \<^verbatim>\<open>PUT\<close> (the variant that updates the comment as its own document). Every answer goes
  out with transport status 200. A path parameter is a string; \<^verbatim>\<open>!idMovie\<close> is true of the
  empty string.
\<close>

definition comment_GET :: "env \<Rightarrow> string \<Rightarrow> string \<Rightarrow> state \<Rightarrow> response \<times> state" where
  "comment_GET e idMovie idComment s =
     try_catch
       (await (connect e s) (\<lambda>client s.
        if \<not> ObjectId_isValid idMovie then
          return (NextResponse_json
              \<lparr>status = 400, message = Some ''Invalid movie ID'',
               error = Some ''Movie ID format is incorrect'', data = None\<rparr> None) s
        else if \<not> ObjectId_isValid idComment then
          return (NextResponse_json
              \<lparr>status = 400, message = Some ''Invalid comment ID'',
               error = Some ''Comment ID format is incorrect'', data = None\<rparr> None) s
        else
          await (findOne e Movies [(Fld ''_id'', ObjectId_new idMovie)] s) (\<lambda>movie s.
          if movie = None then
            return (NextResponse_json
              \<lparr>status = 404, message = Some ''Movie not found'',
               error = Some ''No movie found with the given ID'', data = None\<rparr> None) s
          else
            await (findOne e Comments [(Fld ''_id'', ObjectId_new idComment), (Fld ''movie_id'', ObjectId_new idMovie)] s) (\<lambda>comment.
            case comment of
              None \<Rightarrow>
                return (NextResponse_json
              \<lparr>status = 404, message = Some ''Comment not found'',
               error = Some ''No comment found with the given ID for this movie'', data = None\<rparr> None)
            | Some c \<Rightarrow>
                return (NextResponse_json
              \<lparr>status = 200, message = None,
               error = None, data = Some (JObj [(''comment'', JObj c)])\<rparr> None)))))
       (\<lambda>msg. NextResponse_json
              \<lparr>status = 500, message = Some ''Internal Server Error'',
               error = Some msg, data = None\<rparr> None)"

definition comment_POST :: "env \<Rightarrow> request \<Rightarrow> string \<Rightarrow> string \<Rightarrow> state \<Rightarrow> response \<times> state" where
  "comment_POST e r idMovie idComment s =
     try_catch
       (if idMovie = [] \<or> idComment = [] then
          return (NextResponse_json
              \<lparr>status = 400, message = Some ''Movie ID and Comment ID are required'',
               error = None, data = None\<rparr> None) s
        else if \<not> ObjectId_isValid idMovie \<or> \<not> ObjectId_isValid idComment then
          return (NextResponse_json
              \<lparr>status = 400, message = Some ''Invalid ID format'',
               error = None, data = None\<rparr> None) s
        else
          await (request_json r s) (\<lambda>body s.
          if \<not> truthy (Some body) \<or>
             (\<not> truthy (get_prop body ''text'') \<and> \<not> truthy (get_prop body ''user'')) then
            return (NextResponse_json
              \<lparr>status = 400, message = Some ''Request body must contain at least text or user field'',
               error = None, data = None\<rparr> None) s
          else
            await (connect e s) (\<lambda>client s.
            await (updateOne e Comments [(Fld ''_id'', ObjectId_new idComment), (Fld ''movie_id'', ObjectId_new idMovie)]
                     (set_body body) s) (\<lambda>result.
            if matchedCount result = 0 then
              return (NextResponse_json
              \<lparr>status = 404, message = Some ''Movie or comment not found'',
               error = None, data = None\<rparr> None)
            else
              return (NextResponse_json
              \<lparr>status = 200, message = Some ''Comment updated successfully'',
               error = None, data = Some (JObj [(''modified'', JBool (modifiedCount result > 0)),
                 (''idMovie'', JStr idMovie), (''idComment'', JStr idComment)])\<rparr> None)))))
       (\<lambda>msg. NextResponse_json
              \<lparr>status = 500, message = Some ''Internal server error'',
               error = Some msg, data = None\<rparr> None)"

definition comment_DELETE :: "env \<Rightarrow> string \<Rightarrow> string \<Rightarrow> state \<Rightarrow> response \<times> state" where
  "comment_DELETE e idMovie idComment s =
     try_catch
       (await (connect e s) (\<lambda>client s.
        if \<not> ObjectId_isValid idMovie then
          return (NextResponse_json
              \<lparr>status = 400, message = Some ''Invalid movie ID'',
               error = Some ''Movie ID format is incorrect'', data = None\<rparr> None) s
        else if \<not> ObjectId_isValid idComment then
          return (NextResponse_json
              \<lparr>status = 400, message = Some ''Invalid comment ID'',
               error = Some ''Comment ID format is incorrect'', data = None\<rparr> None) s
        else
          await (findOne e Movies [(Fld ''_id'', ObjectId_new idMovie)] s) (\<lambda>movie s.
          if movie = None then
            return (NextResponse_json
              \<lparr>status = 404, message = Some ''Movie not found'',
               error = Some ''No movie found with the given ID'', data = None\<rparr> None) s
          else
            await (deleteOne e Comments [(Fld ''_id'', ObjectId_new idComment), (Fld ''movie_id'', ObjectId_new idMovie)] s) (\<lambda>deletedCount.
            if deletedCount = 0 then
              return (NextResponse_json
              \<lparr>status = 404, message = Some ''Comment not found'',
               error = Some ''No comment found with the given ID for this movie'', data = None\<rparr> None)
            else
              return (NextResponse_json
              \<lparr>status = 200, message = Some ''Comment deleted successfully'',
               error = None, data = None\<rparr> None)))))
       (\<lambda>msg. NextResponse_json
              \<lparr>status = 500, message = Some ''Internal Server Error'',
               error = Some msg, data = None\<rparr> None)"

definition comment_PUT :: "env \<Rightarrow> request \<Rightarrow> string \<Rightarrow> string \<Rightarrow> state \<Rightarrow> response \<times> state" where
  "comment_PUT e r idMovie idComment s =
     try_catch
       (if idMovie = [] \<or> idComment = [] then
          return (NextResponse_json
              \<lparr>status = 400, message = Some ''Movie ID and Comment ID are required'',
               error = None, data = None\<rparr> None) s
        else if \<not> ObjectId_isValid idMovie \<or> \<not> ObjectId_isValid idComment then
          return (NextResponse_json
              \<lparr>status = 400, message = Some ''Invalid ID format'',
               error = None, data = None\<rparr> None) s
        else
          await (request_json r s) (\<lambda>body s.
          if \<not> truthy (Some body) \<or>
             (\<not> truthy (get_prop body ''text'') \<and> \<not> truthy (get_prop body ''user'')) then
            return (NextResponse_json
              \<lparr>status = 400, message = Some ''Request body must contain at least text or user field'',
               error = None, data = None\<rparr> None) s
          else
            await (connect e s) (\<lambda>client s.
            await (updateOne e Comments [(Fld ''_id'', ObjectId_new idComment), (Fld ''movie_id'', ObjectId_new idMovie)]
                     (set_body body) s) (\<lambda>result.
            if matchedCount result = 0 then
              return (NextResponse_json
              \<lparr>status = 404, message = Some ''Movie or comment not found'',
               error = None, data = None\<rparr> None)
            else
              return (NextResponse_json
              \<lparr>status = 200, message = Some ''Comment updated successfully'',
               error = None, data = Some (JObj [(''modified'', JBool (modifiedCount result > 0)),
                 (''idMovie'', JStr idMovie), (''idComment'', JStr idComment)])\<rparr> None)))))
       (\<lambda>msg. NextResponse_json
              \<lparr>status = 500, message = Some ''Internal server error'',
               error = Some msg, data = None\<rparr> None)"

text \<open>
  \<^verbatim>\<open>src/unnamed/part_002\<close> (\<^verbatim>\<open>app/api/movies/[idMovie]/comments/[idComment]/route.ts\<close>): \<^verbatim>\<open>GET\<close>,
  \<^verbatim>\<open>POST\<close>, \<^verbatim>\<open>DELETE\<close> and \<^verbatim>\<open>PUT\<close> (the variant that updates the comment embedded in its movie).
  An error answer carries its status on the transport too.
\<close>

definition part_002_GET :: "env \<Rightarrow> string \<Rightarrow> string \<Rightarrow> state \<Rightarrow> response \<times> state" where
  "part_002_GET e idMovie idComment s =
     try_catch
       (await (connect e s) (\<lambda>client s.
        if \<not> ObjectId_isValid idMovie then
          return (NextResponse_json
              \<lparr>status = 400, message = Some ''Invalid movie ID'',
               error = Some ''Movie ID format is incorrect'', data = None\<rparr> (Some 400)) s
        else if \<not> ObjectId_isValid idComment then
          return (NextResponse_json
              \<lparr>status = 400, message = Some ''Invalid comment ID'',
               error = Some ''Comment ID format is incorrect'', data = None\<rparr> (Some 400)) s
        else
          await (findOne e Movies [(Fld ''_id'', ObjectId_new idMovie)] s) (\<lambda>movie s.
          if movie = None then
            return (NextResponse_json
              \<lparr>status = 404, message = Some ''Movie not found'',
               error = Some ''No movie found with the given ID'', data = None\<rparr> (Some 404)) s
          else
            await (findOne e Comments [(Fld ''_id'', ObjectId_new idComment), (Fld ''movie_id'', ObjectId_new idMovie)] s) (\<lambda>comment.
            case comment of
              None \<Rightarrow>
                return (NextResponse_json
              \<lparr>status = 404, message = Some ''Comment not found'',
               error = Some ''No comment found with the given ID for this movie'', data = None\<rparr> (Some 404))
            | Some c \<Rightarrow>
                return (NextResponse_json
              \<lparr>status = 200, message = None,
               error = None, data = Some (JObj [(''comment'', JObj c)])\<rparr> None)))))
       (\<lambda>msg. NextResponse_json
              \<lparr>status = 500, message = Some ''Internal Server Error'',
               error = Some msg, data = None\<rparr> (Some 500))"

definition part_002_POST :: "env \<Rightarrow> request \<Rightarrow> string \<Rightarrow> string \<Rightarrow> state \<Rightarrow> response \<times> state" where
  "part_002_POST e r idMovie idComment s =
     try_catch
       (if idMovie = [] \<or> idComment = [] then
          return (NextResponse_json
              \<lparr>status = 400, message = Some ''Movie ID and Comment ID are required'',
               error = None, data = None\<rparr> (Some 400)) s
        else if \<not> ObjectId_isValid idMovie \<or> \<not> ObjectId_isValid idComment then
          return (NextResponse_json
              \<lparr>status = 400, message = Some ''Invalid ID format'',
               error = None, data = None\<rparr> (Some 400)) s
        else
          await (request_json r s) (\<lambda>body s.
          if \<not> truthy (Some body) \<or>
             (\<not> truthy (get_prop body ''text'') \<and> \<not> truthy (get_prop body ''user'')) then
            return (NextResponse_json
              \<lparr>status = 400, message = Some ''Request body must contain at least text or user field'',
               error = None, data = None\<rparr> (Some 400)) s
          else
            await (connect e s) (\<lambda>client s.
            await (updateOne e Comments [(Fld ''_id'', ObjectId_new idComment), (Fld ''movie_id'', ObjectId_new idMovie)]
                     (set_body body) s) (\<lambda>result.
            if matchedCount result = 0 then
              return (NextResponse_json
              \<lparr>status = 404, message = Some ''Movie or comment not found'',
               error = None, data = None\<rparr> (Some 404))
            else
              return (NextResponse_json
              \<lparr>status = 200, message = Some ''Comment updated successfully'',
               error = None, data = Some (JObj [(''modified'', JBool (modifiedCount result > 0)),
                 (''idMovie'', JStr idMovie), (''idComment'', JStr idComment)])\<rparr> None)))))
       (\<lambda>msg. NextResponse_json
              \<lparr>status = 500, message = Some ''Internal server error'',
               error = Some msg, data = None\<rparr> (Some 500))"

definition part_002_DELETE :: "env \<Rightarrow> string \<Rightarrow> string \<Rightarrow> state \<Rightarrow> response \<times> state" where
  "part_002_DELETE e idMovie idComment s =
     try_catch
       (await (connect e s) (\<lambda>client s.
        if \<not> ObjectId_isValid idMovie then
          return (NextResponse_json
              \<lparr>status = 400, message = Some ''Invalid movie ID'',
               error = Some ''Movie ID format is incorrect'', data = None\<rparr> (Some 400)) s
        else if \<not> ObjectId_isValid idComment then
          return (NextResponse_json
              \<lparr>status = 400, message = Some ''Invalid comment ID'',
               error = Some ''Comment ID format is incorrect'', data = None\<rparr> (Some 400)) s
        else
          await (findOne e Movies [(Fld ''_id'', ObjectId_new idMovie)] s) (\<lambda>movie s.
          if movie = None then
            return (NextResponse_json
              \<lparr>status = 404, message = Some ''Movie not found'',
               error = Some ''No movie found with the given ID'', data = None\<rparr> (Some 404)) s
          else
            await (deleteOne e Comments [(Fld ''_id'', ObjectId_new idComment), (Fld ''movie_id'', ObjectId_new idMovie)] s) (\<lambda>deletedCount.
            if deletedCount = 0 then
              return (NextResponse_json
              \<lparr>status = 404, message = Some ''Comment not found'',
               error = Some ''No comment found with the given ID for this movie'', data = None\<rparr> (Some 404))
            else
              return (NextResponse_json
              \<lparr>status = 200, message = Some ''Comment deleted successfully'',
               error = None, data = None\<rparr> None)))))
       (\<lambda>msg. NextResponse_json
              \<lparr>status = 500, message = Some ''Internal Server Error'',
               error = Some msg, data = None\<rparr> (Some 500))"

definition part_002_PUT :: "env \<Rightarrow> request \<Rightarrow> string \<Rightarrow> string \<Rightarrow> state \<Rightarrow> response \<times> state" where
  "part_002_PUT e r idMovie idComment s =
     try_catch
       (await (connect e s) (\<lambda>client s.
        await (request_json r s) (\<lambda>body s.
        if \<not> ObjectId_isValid idMovie then
          return (NextResponse_json
              \<lparr>status = 400, message = Some ''Invalid movie ID'',
               error = Some ''Movie ID format is incorrect'', data = None\<rparr> (Some 400)) s
        else if \<not> ObjectId_isValid idComment then
          return (NextResponse_json
              \<lparr>status = 400, message = Some ''Invalid comment ID'',
               error = Some ''Comment ID format is incorrect'', data = None\<rparr> (Some 400)) s
        else
          (case body of
             JNull \<Rightarrow> (Inl ''Cannot read properties of null (reading 'text')'', s)
           | _ \<Rightarrow>
              (let text = get_prop body ''text'' in
               if \<not> truthy text \<or> typeof text \<noteq> ''string'' then
                 return (NextResponse_json
              \<lparr>status = 400, message = Some ''Invalid input'',
               error = Some ''Comment text is required and must be a string'', data = None\<rparr> (Some 400)) s
               else
                 await (updateOne e Movies
                          [(Fld ''_id'', ObjectId_new idMovie),
                           (Elem ''comments'' ''_id'', ObjectId_new idComment)]
                          [(Elem ''comments'' ''text'', stored text),
                           (Elem ''comments'' ''updatedAt'', JDate (now e))] s) (\<lambda>result.
                 if matchedCount result = 0 then
                   return (NextResponse_json
              \<lparr>status = 404, message = Some ''Movie or comment not found'',
               error = Some ''No matching movie or comment with the given IDs'', data = None\<rparr> (Some 404))
                 else
                   return (NextResponse_json
              \<lparr>status = 200, message = Some ''Comment updated successfully'',
               error = None, data = None\<rparr> None)))))))
       (\<lambda>msg. NextResponse_json
              \<lparr>status = 500, message = Some ''Internal Server Error'',
               error = Some msg, data = None\<rparr> (Some 500))"

section \<open>Every handler at once\<close>



section \<open>Sample data\<close>

text \<open>
  A store that answers every call, and a few documents in the shape of the
  \<^verbatim>\<open>sample_mflix\<close> collections, for the concrete runs below.
\<close>

abbreviation env_ok :: env where
  "env_ok \<equiv> \<lparr>clientPromise = Inr (), throws = (\<lambda>c. None), now = 1000\<rparr>"

abbreviation movie_a :: string where "movie_a \<equiv> ''573a1390f29313caabcd4135''"
abbreviation movie_b :: string where "movie_b \<equiv> ''573a1390f29313caabcd42e8''"
abbreviation comment_x :: string where "comment_x \<equiv> ''5a9427648b0beebeb69579e7''"
abbreviation comment_y :: string where "comment_y \<equiv> ''5a9427648b0beebeb6957a21''"
abbreviation theater_t :: string where "theater_t \<equiv> ''59a47286cfa9a3a73e51e72c''"

abbreviation doc_comment_x :: document where
  "doc_comment_x \<equiv>
     [(''_id'', JOid comment_x), (''name'', JStr ''Mercedes Tyler''),
      (''movie_id'', JOid movie_b), (''text'', JStr ''Eius veritatis vero.'')]"

abbreviation doc_movie_a :: document where
  "doc_movie_a \<equiv>
     [(''_id'', JOid movie_a), (''title'', JStr ''Blacksmith Scene''),
      (''comments'', JArr
         [JObj [(''_id'', JOid comment_y), (''text'', JStr ''first'')],
          JObj [(''_id'', JOid comment_x), (''text'', JStr ''second'')]])]"

abbreviation doc_theater_t :: document where
  "doc_theater_t \<equiv> [(''_id'', JOid theater_t), (''theaterId'', JNum 1000)]"

abbreviation numbered :: "nat \<Rightarrow> document list" where
  "numbered n \<equiv> map (\<lambda>i. [(''_id'', JNum (int i))]) [0..<n]"

abbreviation store_empty :: state where
  "store_empty \<equiv> \<lparr>calls = [], db = \<lparr>theaters = [], movies = [], comments = []\<rparr>\<rparr>"

abbreviation store_orphan :: state where
  "store_orphan \<equiv>
     \<lparr>calls = [],
      db = \<lparr>theaters = [], movies = [doc_movie_a], comments = [doc_comment_x]\<rparr>\<rparr>"

abbreviation store_sample :: state where
  "store_sample \<equiv>
     \<lparr>calls = [],
      db = \<lparr>theaters = [doc_theater_t], movies = [doc_movie_a], comments = [doc_comment_x]\<rparr>\<rparr>"

section \<open>Unfolding the handlers\<close>

lemmas io_defs = try_catch_def await_def return_def connect_def request_json_def
  findOne_def find_docs_def updateOne_def deleteOne_def issue_def NextResponse_json_def

lemmas handler_defs = part_000_GET_def movies_GET_def movies_POST_def movies_PUT_def
  movies_DELETE_def comments_GET_def theater_GET_def part_001_GET_def comment_GET_def
  comment_POST_def comment_DELETE_def comment_PUT_def part_002_GET_def part_002_POST_def
  part_002_DELETE_def part_002_PUT_def

lemmas id_defs = ObjectId_isValid_def is_hex_def ObjectId_new_def lower_hex_def

lemma matches_Nil [simp]: "matches [] = (\<lambda>d. True)"
  by (rule ext) (simp add: matches_def)

lemma matches_Cons [simp]: "matches (c # q) = (\<lambda>d. holds d c \<and> matches q d)"
  by (rule ext) (simp add: matches_def)

lemma remove_first_none: "\<not> list_ex P xs \<Longrightarrow> remove_first P xs = xs"
  by (induction xs) auto

lemma find_absent: "\<forall>x \<in> set xs. \<not> P x \<Longrightarrow> List.find P xs = None"
  by (simp add: find_None_iff)

lemma find_present: "\<exists>x \<in> set xs. P x \<Longrightarrow> List.find P xs \<noteq> None"
  by (simp add: find_None_iff) blast

lemma update_first_none: "\<not> list_ex P xs \<Longrightarrow> update_first P f xs = xs"
  by (induction xs) auto

lemma update_first_split:
  "\<forall>x \<in> set pre. \<not> P x \<Longrightarrow> P m \<Longrightarrow> update_first P f (pre @ m # post) = pre @ f m # post"
  by (induction pre) auto

lemma index_of_split:
  "\<forall>x \<in> set xs. \<not> P x \<Longrightarrow> P y \<Longrightarrow> index_of P (xs @ y # ys) = Some (length xs)"
  by (induction xs) auto

lemma set_body_fields:
  "map_of (foldr (set_path pos) (map (\<lambda>(k, v). (Fld k, v)) kvs) d) = map_of d ++ map_of kvs"
  by (induction kvs) (auto simp: update_conv' fun_eq_iff map_add_def)

lemma valid_id_not_empty: "ObjectId_isValid i \<Longrightarrow> i \<noteq> []"
  by (auto simp: ObjectId_isValid_def)

section \<open>The response envelope\<close>



section \<open>The list handlers and the collection of \<^verbatim>\<open>/movies\<close>\<close>

text \<open>
  C8. \<^verbatim>\<open>POST\<close>, \<^verbatim>\<open>PUT\<close> and \<^verbatim>\<open>DELETE\<close> on \<^verbatim>\<open>/movies\<close> take no argument at all: each answers with
  status 405 and leaves the log of store calls and the database as they were.
\<close>

theorem movies_mutations_not_allowed:
  "status (body (fst (movies_POST s))) = 405 \<and> snd (movies_POST s) = s \<and>
   status (body (fst (movies_PUT s))) = 405 \<and> snd (movies_PUT s) = s \<and>
   status (body (fst (movies_DELETE s))) = 405 \<and> snd (movies_DELETE s) = s"
  by (simp add: movies_POST_def movies_PUT_def movies_DELETE_def NextResponse_json_def)

text \<open>
  C7. When the client is there and the \<^verbatim>\<open>find\<close> does not throw, \<^verbatim>\<open>GET /theaters\<close> and
  \<^verbatim>\<open>GET /movies\<close> issue one unfiltered \<^verbatim>\<open>find\<close> limited to 10 and answer 200 with the first ten
  documents of the collection in the store's order: \<open>min 10 n\<close> documents of \<open>n\<close>, so exactly
  ten when there are more.
\<close>

theorem list_handlers_limit_ten:
  assumes "clientPromise e = Inr ()"
    and "throws e (Find Theaters [] (Some 10)) = None"
    and "throws e (Find Movies [] (Some 10)) = None"
  shows "part_000_GET e s =
           (\<lparr>transport = 200,
             body = \<lparr>status = 200, message = None, error = None,
                     data = Some (JArr (map JObj (take 10 (theaters (db s)))))\<rparr>\<rparr>,
            s\<lparr>calls := calls s @ [Find Theaters [] (Some 10)]\<rparr>) \<and>
         movies_GET e s =
           (\<lparr>transport = 200,
             body = \<lparr>status = 200, message = None, error = None,
                     data = Some (JArr (map JObj (take 10 (movies (db s)))))\<rparr>\<rparr>,
            s\<lparr>calls := calls s @ [Find Movies [] (Some 10)]\<rparr>) \<and>
         length (take 10 (theaters (db s))) = min 10 (length (theaters (db s))) \<and>
         length (take 10 (movies (db s))) = min 10 (length (movies (db s)))"
  using assms by (simp add: part_000_GET_def movies_GET_def io_defs min.commute)

theorem list_handlers_limit_ten_witness:
  "part_000_GET env_ok \<lparr>calls = [], db = \<lparr>theaters = numbered 11, movies = numbered 3, comments = []\<rparr>\<rparr> =
     (\<lparr>transport = 200,
       body = \<lparr>status = 200, message = None, error = None,
               data = Some (JArr (map JObj (numbered 10)))\<rparr>\<rparr>,
      \<lparr>calls = [Find Theaters [] (Some 10)],
       db = \<lparr>theaters = numbered 11, movies = numbered 3, comments = []\<rparr>\<rparr>) \<and>
   movies_GET env_ok \<lparr>calls = [], db = \<lparr>theaters = numbered 11, movies = numbered 3, comments = []\<rparr>\<rparr> =
     (\<lparr>transport = 200,
       body = \<lparr>status = 200, message = None, error = None,
               data = Some (JArr (map JObj (numbered 3)))\<rparr>\<rparr>,
      \<lparr>calls = [Find Movies [] (Some 10)],
       db = \<lparr>theaters = numbered 11, movies = numbered 3, comments = []\<rparr>\<rparr>) \<and>
   length (numbered 10) = 10"
  using list_handlers_limit_ten [of env_ok "\<lparr>calls = [], db = \<lparr>theaters = numbered 11, movies = numbered 3, comments = []\<rparr>\<rparr>"]
  by (simp add: take_map)

section \<open>The comments of a movie\<close>

text \<open>
  C6. With a valid \<open>idMovie\<close>, the client there and no throw, \<^verbatim>\<open>GET /movies/{idMovie}/comments\<close>
  issues a single \<^verbatim>\<open>find\<close> on the comments (the movies are never read) and answers 200 with
  the comments whose \<^verbatim>\<open>movie_id\<close> is \<open>idMovie\<close>, an empty array when there is none.
\<close>

theorem comments_of_movie_without_existence_check:
  assumes "ObjectId_isValid idMovie"
    and "clientPromise e = Inr ()"
    and "throws e (Find Comments [(Fld ''movie_id'', ObjectId_new idMovie)] None) = None"
  shows "comments_GET e idMovie s =
           (\<lparr>transport = 200,
             body = \<lparr>status = 200, message = None, error = None,
                     data = Some (JObj [(''comments'',
                       JArr (map JObj
                         (filter (\<lambda>c. map_of c ''movie_id'' = Some (ObjectId_new idMovie))
                            (comments (db s)))))])\<rparr>\<rparr>,
            s\<lparr>calls := calls s @ [Find Comments [(Fld ''movie_id'', ObjectId_new idMovie)] None]\<rparr>)"
  using assms by (simp add: comments_GET_def io_defs)

theorem comments_of_movie_without_existence_check_witness:
  "comments_GET env_ok movie_a store_sample =
     (\<lparr>transport = 200,
       body = \<lparr>status = 200, message = None, error = None,
               data = Some (JObj [(''comments'', JArr [])])\<rparr>\<rparr>,
      store_sample\<lparr>calls := [Find Comments [(Fld ''movie_id'', JOid movie_a)] None]\<rparr>) \<and>
   comments_GET env_ok movie_b store_empty =
     (\<lparr>transport = 200,
       body = \<lparr>status = 200, message = None, error = None,
               data = Some (JObj [(''comments'', JArr [])])\<rparr>\<rparr>,
      store_empty\<lparr>calls := [Find Comments [(Fld ''movie_id'', JOid movie_b)] None]\<rparr>) \<and>
   comments_GET env_ok movie_b store_sample =
     (\<lparr>transport = 200,
       body = \<lparr>status = 200, message = None, error = None,
               data = Some (JObj [(''comments'', JArr [JObj doc_comment_x])])\<rparr>\<rparr>,
      store_sample\<lparr>calls := [Find Comments [(Fld ''movie_id'', JOid movie_b)] None]\<rparr>)"
  using comments_of_movie_without_existence_check [of movie_a env_ok store_sample]
    comments_of_movie_without_existence_check [of movie_b env_ok store_empty]
    comments_of_movie_without_existence_check [of movie_b env_ok store_sample]
  by (simp add: id_defs)

text \<open>With a failing store or an invalid identifier too, the answer is never 404.\<close>

lemma comments_GET_never_404: "status (body (fst (comments_GET e idMovie s))) \<noteq> 404"
  by (auto simp: comments_GET_def io_defs Let_def split: sum.splits option.splits)

section \<open>One comment: the chain of preconditions\<close>

text \<open>
  C2. \<^verbatim>\<open>DELETE /movies/{idMovie}/comments/{idComment}\<close>, in both source files, with two valid
  identifiers, the client there and no throw: when the movie exists and no comment with
  identifier \<open>idComment\<close> has \<open>idMovie\<close> as its \<^verbatim>\<open>movie_id\<close>, the answer is 404
  (\<^verbatim>\<open>Comment not found\<close>) and the database is what it was, so a comment with that identifier
  under another movie stays.
\<close>

theorem delete_comment_of_another_movie:
  assumes "ObjectId_isValid idMovie" and "ObjectId_isValid idComment"
    and "clientPromise e = Inr ()"
    and "throws e (FindOne Movies [(Fld ''_id'', ObjectId_new idMovie)]) = None"
    and "throws e (DeleteOne Comments
           [(Fld ''_id'', ObjectId_new idComment), (Fld ''movie_id'', ObjectId_new idMovie)]) = None"
    and "\<exists>m \<in> set (movies (db s)). map_of m ''_id'' = Some (ObjectId_new idMovie)"
    and "\<forall>c \<in> set (comments (db s)).
           map_of c ''_id'' = Some (ObjectId_new idComment) \<longrightarrow>
           map_of c ''movie_id'' \<noteq> Some (ObjectId_new idMovie)"
  shows "fst (comment_DELETE e idMovie idComment s) =
           \<lparr>transport = 200,
            body = \<lparr>status = 404, message = Some ''Comment not found'',
                    error = Some ''No comment found with the given ID for this movie'',
                    data = None\<rparr>\<rparr> \<and>
         db (snd (comment_DELETE e idMovie idComment s)) = db s \<and>
         fst (part_002_DELETE e idMovie idComment s) =
           \<lparr>transport = 404,
            body = \<lparr>status = 404, message = Some ''Comment not found'',
                    error = Some ''No comment found with the given ID for this movie'',
                    data = None\<rparr>\<rparr> \<and>
         db (snd (part_002_DELETE e idMovie idComment s)) = db s"
proof -
  let ?q = "[(Fld ''_id'', ObjectId_new idComment), (Fld ''movie_id'', ObjectId_new idMovie)]"
  have movie: "List.find (matches [(Fld ''_id'', ObjectId_new idMovie)]) (movies (db s)) \<noteq> None"
    using assms(6) by (intro find_present) simp
  have none: "\<not> list_ex (matches ?q) (comments (db s))"
    using assms(7) by (auto simp: list_ex_iff)
  have kept: "remove_first (matches ?q) (comments (db s)) = comments (db s)"
    using none by (rule remove_first_none)
  show ?thesis
    using assms(1-5) movie none kept
    by (simp add: comment_DELETE_def part_002_DELETE_def io_defs del: matches_Cons)
qed

theorem delete_comment_of_another_movie_witness:
  "fst (comment_DELETE env_ok movie_a comment_x store_sample) =
     \<lparr>transport = 200,
      body = \<lparr>status = 404, message = Some ''Comment not found'',
              error = Some ''No comment found with the given ID for this movie'',
              data = None\<rparr>\<rparr> \<and>
   comments (db (snd (comment_DELETE env_ok movie_a comment_x store_sample))) = [doc_comment_x] \<and>
   fst (part_002_DELETE env_ok movie_a comment_x store_sample) =
     \<lparr>transport = 404,
      body = \<lparr>status = 404, message = Some ''Comment not found'',
              error = Some ''No comment found with the given ID for this movie'',
              data = None\<rparr>\<rparr> \<and>
   comments (db (snd (part_002_DELETE env_ok movie_a comment_x store_sample))) = [doc_comment_x]"
  using delete_comment_of_another_movie [of movie_a comment_x env_ok store_sample]
  by (simp add: id_defs)

text \<open>
  C3, as amended. \<^verbatim>\<open>GET\<close> and \<^verbatim>\<open>DELETE\<close> on one comment, in both source files, with two valid
  identifiers, the client there and no throw: when no movie has the identifier \<open>idMovie\<close>, the
  answer is 404 (\<^verbatim>\<open>Movie not found\<close>) and the only store call is the \<^verbatim>\<open>findOne\<close> on the movies;
  nothing is asked of the comments.
\<close>

theorem missing_movie_stops_get_and_delete:
  assumes "ObjectId_isValid idMovie" and "ObjectId_isValid idComment"
    and "clientPromise e = Inr ()"
    and "throws e (FindOne Movies [(Fld ''_id'', ObjectId_new idMovie)]) = None"
    and "\<forall>m \<in> set (movies (db s)). map_of m ''_id'' \<noteq> Some (ObjectId_new idMovie)"
  shows "comment_GET e idMovie idComment s =
           (\<lparr>transport = 200,
             body = \<lparr>status = 404, message = Some ''Movie not found'',
                     error = Some ''No movie found with the given ID'', data = None\<rparr>\<rparr>,
            s\<lparr>calls := calls s @ [FindOne Movies [(Fld ''_id'', ObjectId_new idMovie)]]\<rparr>) \<and>
         comment_DELETE e idMovie idComment s =
           (\<lparr>transport = 200,
             body = \<lparr>status = 404, message = Some ''Movie not found'',
                     error = Some ''No movie found with the given ID'', data = None\<rparr>\<rparr>,
            s\<lparr>calls := calls s @ [FindOne Movies [(Fld ''_id'', ObjectId_new idMovie)]]\<rparr>) \<and>
         part_002_GET e idMovie idComment s =
           (\<lparr>transport = 404,
             body = \<lparr>status = 404, message = Some ''Movie not found'',
                     error = Some ''No movie found with the given ID'', data = None\<rparr>\<rparr>,
            s\<lparr>calls := calls s @ [FindOne Movies [(Fld ''_id'', ObjectId_new idMovie)]]\<rparr>) \<and>
         part_002_DELETE e idMovie idComment s =
           (\<lparr>transport = 404,
             body = \<lparr>status = 404, message = Some ''Movie not found'',
                     error = Some ''No movie found with the given ID'', data = None\<rparr>\<rparr>,
            s\<lparr>calls := calls s @ [FindOne Movies [(Fld ''_id'', ObjectId_new idMovie)]]\<rparr>)"
proof -
  have movie: "List.find (matches [(Fld ''_id'', ObjectId_new idMovie)]) (movies (db s)) = None"
    using assms(5) by (intro find_absent) simp
  show ?thesis
    using assms(1-4) movie
    by (simp add: comment_GET_def comment_DELETE_def part_002_GET_def part_002_DELETE_def io_defs
             del: matches_Cons)
qed

theorem missing_movie_stops_get_and_delete_witness:
  "comment_GET env_ok movie_b comment_x store_orphan =
     (\<lparr>transport = 200,
       body = \<lparr>status = 404, message = Some ''Movie not found'',
               error = Some ''No movie found with the given ID'', data = None\<rparr>\<rparr>,
      store_orphan\<lparr>calls := [FindOne Movies [(Fld ''_id'', JOid movie_b)]]\<rparr>) \<and>
   part_002_DELETE env_ok movie_b comment_x store_orphan =
     (\<lparr>transport = 404,
       body = \<lparr>status = 404, message = Some ''Movie not found'',
               error = Some ''No movie found with the given ID'', data = None\<rparr>\<rparr>,
      store_orphan\<lparr>calls := [FindOne Movies [(Fld ''_id'', JOid movie_b)]]\<rparr>)"
  using missing_movie_stops_get_and_delete [of movie_b comment_x env_ok store_orphan]
  by (simp add: id_defs)

text \<open>
  C3 as stated also names \<^verbatim>\<open>POST\<close> and the \<^verbatim>\<open>PUT\<close> that works as \<^verbatim>\<open>POST\<close>. These never read the
  movies: with no movie \<open>movie_b\<close> in the store, \<^verbatim>\<open>POST\<close> updates the comment that names
  \<open>movie_b\<close> and answers 200.
\<close>

theorem post_updates_comment_of_missing_movie:
  "fst (findOne env_ok Movies [(Fld ''_id'', ObjectId_new movie_b)] store_orphan) = Inr None \<and>
   comment_POST env_ok \<lparr>json = Inr (JObj [(''text'', JStr ''edited'')])\<rparr> movie_b comment_x
       store_orphan =
     (\<lparr>transport = 200,
       body = \<lparr>status = 200, message = Some ''Comment updated successfully'', error = None,
               data = Some (JObj [(''modified'', JBool True), (''idMovie'', JStr movie_b),
                                  (''idComment'', JStr comment_x)])\<rparr>\<rparr>,
      \<lparr>calls = [UpdateOne Comments
                  [(Fld ''_id'', JOid comment_x), (Fld ''movie_id'', JOid movie_b)]
                  [(Fld ''text'', JStr ''edited'')]],
       db = \<lparr>theaters = [], movies = [doc_movie_a],
              comments = [[(''_id'', JOid comment_x), (''name'', JStr ''Mercedes Tyler''),
                           (''movie_id'', JOid movie_b), (''text'', JStr ''edited'')]]\<rparr>\<rparr>)"
  by (simp add: comment_POST_def io_defs id_defs apply_set_def)

text \<open>
  What \<^verbatim>\<open>POST\<close> and that \<^verbatim>\<open>PUT\<close> do in place of the check: their one store call is the
  \<^verbatim>\<open>updateOne\<close> on the comments, and when no comment has both identifiers the answer is 404
  with the message \<^verbatim>\<open>Movie or comment not found\<close>, whether the movie exists or not.
\<close>

lemma post_relies_on_combined_filter:
  assumes "ObjectId_isValid idMovie" and "ObjectId_isValid idComment"
    and "json r = Inr (JObj kvs)"
    and "truthy (map_of kvs ''text'') \<or> truthy (map_of kvs ''user'')"
    and "clientPromise e = Inr ()"
    and "throws e (UpdateOne Comments
           [(Fld ''_id'', ObjectId_new idComment), (Fld ''movie_id'', ObjectId_new idMovie)]
           (map (\<lambda>(k, v). (Fld k, v)) kvs)) = None"
    and "\<forall>c \<in> set (comments (db s)).
           map_of c ''_id'' = Some (ObjectId_new idComment) \<longrightarrow>
           map_of c ''movie_id'' \<noteq> Some (ObjectId_new idMovie)"
  shows "comment_POST e r idMovie idComment s =
           (\<lparr>transport = 200,
             body = \<lparr>status = 404, message = Some ''Movie or comment not found'',
                     error = None, data = None\<rparr>\<rparr>,
            s\<lparr>calls := calls s @ [UpdateOne Comments
               [(Fld ''_id'', ObjectId_new idComment), (Fld ''movie_id'', ObjectId_new idMovie)]
               (map (\<lambda>(k, v). (Fld k, v)) kvs)]\<rparr>)"
    and "comment_PUT e r idMovie idComment s = comment_POST e r idMovie idComment s"
    and "snd (part_002_POST e r idMovie idComment s) = snd (comment_POST e r idMovie idComment s)"
    and "body (fst (part_002_POST e r idMovie idComment s)) =
           body (fst (comment_POST e r idMovie idComment s))"
proof -
  let ?q = "[(Fld ''_id'', ObjectId_new idComment), (Fld ''movie_id'', ObjectId_new idMovie)]"
  have none: "\<not> list_ex (matches ?q) (comments (db s))"
    using assms(7) by (auto simp: list_ex_iff)
  have kept: "update_first (matches ?q) f (comments (db s)) = comments (db s)" for f
    using none by (rule update_first_none)
  have ids: "idMovie \<noteq> []" "idComment \<noteq> []"
    using assms(1,2) by (auto dest: valid_id_not_empty)
  show "comment_POST e r idMovie idComment s =
           (\<lparr>transport = 200,
             body = \<lparr>status = 404, message = Some ''Movie or comment not found'',
                     error = None, data = None\<rparr>\<rparr>,
            s\<lparr>calls := calls s @ [UpdateOne Comments
               [(Fld ''_id'', ObjectId_new idComment), (Fld ''movie_id'', ObjectId_new idMovie)]
               (map (\<lambda>(k, v). (Fld k, v)) kvs)]\<rparr>)"
    using assms(1-6) none kept ids
    by (auto simp: comment_POST_def io_defs Let_def simp del: matches_Cons)
  show "comment_PUT e r idMovie idComment s = comment_POST e r idMovie idComment s"
    by (simp add: comment_PUT_def comment_POST_def)
  show "snd (part_002_POST e r idMovie idComment s) = snd (comment_POST e r idMovie idComment s)"
    using assms(1-6) none kept ids
    by (auto simp: comment_POST_def part_002_POST_def io_defs Let_def simp del: matches_Cons)
  show "body (fst (part_002_POST e r idMovie idComment s)) =
           body (fst (comment_POST e r idMovie idComment s))"
    using assms(1-6) none kept ids
    by (auto simp: comment_POST_def part_002_POST_def io_defs Let_def simp del: matches_Cons)
qed

section \<open>Updating a comment\<close>

text \<open>
  C5. \<^verbatim>\<open>POST\<close> (in both source files) and the \<^verbatim>\<open>PUT\<close> that works as \<^verbatim>\<open>POST\<close> hand the whole parsed
  body to \<^verbatim>\<open>$set\<close>. With two valid identifiers, a body with a truthy \<^verbatim>\<open>text\<close> or \<^verbatim>\<open>user\<close>, the
  client there and no throw, and \<open>c\<close> the first comment with both identifiers: the one store
  call is the \<^verbatim>\<open>updateOne\<close> on the comments with every member of the body, and \<open>c\<close> becomes a
  document that has every member of the body (\<^verbatim>\<open>movie_id\<close> or any other, not only \<^verbatim>\<open>text\<close> and
  \<^verbatim>\<open>user\<close>) and otherwise the fields of \<open>c\<close>; the answer has status 200.
\<close>

theorem post_sets_whole_body:
  assumes "ObjectId_isValid idMovie" and "ObjectId_isValid idComment"
    and "json r = Inr (JObj kvs)"
    and "truthy (map_of kvs ''text'') \<or> truthy (map_of kvs ''user'')"
    and "clientPromise e = Inr ()"
    and "throws e (UpdateOne Comments
           [(Fld ''_id'', ObjectId_new idComment), (Fld ''movie_id'', ObjectId_new idMovie)]
           (map (\<lambda>(k, v). (Fld k, v)) kvs)) = None"
    and "comments (db s) = pre @ c # post"
    and "\<forall>d \<in> set pre. map_of d ''_id'' \<noteq> Some (ObjectId_new idComment)"
    and "map_of c ''_id'' = Some (ObjectId_new idComment)"
    and "map_of c ''movie_id'' = Some (ObjectId_new idMovie)"
  shows "\<exists>c'. map_of c' = map_of c ++ map_of kvs \<and>
           snd (comment_POST e r idMovie idComment s) =
             \<lparr>calls = calls s @ [UpdateOne Comments
                [(Fld ''_id'', ObjectId_new idComment), (Fld ''movie_id'', ObjectId_new idMovie)]
                (map (\<lambda>(k, v). (Fld k, v)) kvs)],
              db = (db s)\<lparr>comments := pre @ c' # post\<rparr>\<rparr> \<and>
           status (body (fst (comment_POST e r idMovie idComment s))) = 200 \<and>
           snd (part_002_POST e r idMovie idComment s) =
             snd (comment_POST e r idMovie idComment s) \<and>
           status (body (fst (part_002_POST e r idMovie idComment s))) = 200 \<and>
           snd (comment_PUT e r idMovie idComment s) =
             snd (comment_POST e r idMovie idComment s) \<and>
           status (body (fst (comment_PUT e r idMovie idComment s))) = 200"
proof -
  let ?q = "[(Fld ''_id'', ObjectId_new idComment), (Fld ''movie_id'', ObjectId_new idMovie)]"
  let ?u = "map (\<lambda>(k, v). (Fld k, v)) kvs"
  have c: "matches ?q c"
    using assms(9,10) by simp
  have pre: "\<forall>d \<in> set pre. \<not> matches ?q d"
    using assms(8) by simp
  have fields: "map_of (apply_set ?q ?u c) = map_of c ++ map_of kvs"
    unfolding apply_set_def by (rule set_body_fields)
  have docs: "update_first (matches ?q) (apply_set ?q ?u) (comments (db s)) =
      pre @ apply_set ?q ?u c # post"
    unfolding assms(7) using pre c by (rule update_first_split)
  have ex: "list_ex (matches ?q) (comments (db s))"
    unfolding assms(7) using c by (simp del: matches_Cons)
  have ids: "idMovie \<noteq> []" "idComment \<noteq> []"
    using assms(1,2) by (auto dest: valid_id_not_empty)
  have "snd (comment_POST e r idMovie idComment s) =
          \<lparr>calls = calls s @ [UpdateOne Comments ?q ?u],
           db = (db s)\<lparr>comments := pre @ apply_set ?q ?u c # post\<rparr>\<rparr> \<and>
        status (body (fst (comment_POST e r idMovie idComment s))) = 200 \<and>
        snd (part_002_POST e r idMovie idComment s) =
          snd (comment_POST e r idMovie idComment s) \<and>
        status (body (fst (part_002_POST e r idMovie idComment s))) = 200 \<and>
        snd (comment_PUT e r idMovie idComment s) =
          snd (comment_POST e r idMovie idComment s) \<and>
        status (body (fst (comment_PUT e r idMovie idComment s))) = 200"
    using assms(1-6) docs ex ids
    by (auto simp: comment_POST_def part_002_POST_def comment_PUT_def io_defs Let_def
             simp del: matches_Cons)
  with fields show ?thesis by blast
qed

theorem post_sets_whole_body_witness:
  "comment_POST env_ok
       \<lparr>json = Inr (JObj [(''text'', JStr ''edited''), (''movie_id'', JStr ''elsewhere''),
                          (''rating'', JNum 5)])\<rparr>
       movie_b comment_x store_sample =
     (\<lparr>transport = 200,
       body = \<lparr>status = 200, message = Some ''Comment updated successfully'', error = None,
               data = Some (JObj [(''modified'', JBool True), (''idMovie'', JStr movie_b),
                                  (''idComment'', JStr comment_x)])\<rparr>\<rparr>,
      \<lparr>calls = [UpdateOne Comments
                  [(Fld ''_id'', JOid comment_x), (Fld ''movie_id'', JOid movie_b)]
                  [(Fld ''text'', JStr ''edited''), (Fld ''movie_id'', JStr ''elsewhere''),
                   (Fld ''rating'', JNum 5)]],
       db = \<lparr>theaters = [doc_theater_t], movies = [doc_movie_a],
              comments = [[(''_id'', JOid comment_x), (''name'', JStr ''Mercedes Tyler''),
                           (''movie_id'', JStr ''elsewhere''), (''text'', JStr ''edited''),
                           (''rating'', JNum 5)]]\<rparr>\<rparr>)"
  using post_sets_whole_body
    [where idMovie = movie_b and idComment = comment_x and e = env_ok
       and r = "\<lparr>json = Inr (JObj [(''text'', JStr ''edited''),
                  (''movie_id'', JStr ''elsewhere''), (''rating'', JNum 5)])\<rparr>"
       and kvs = "[(''text'', JStr ''edited''), (''movie_id'', JStr ''elsewhere''),
                   (''rating'', JNum 5)]"
       and s = store_sample and pre = "[]" and c = doc_comment_x and post = "[]"]
  by (simp add: comment_POST_def io_defs id_defs apply_set_def)

text \<open>
  C4, as amended. The \<^verbatim>\<open>PUT\<close> that updates the comment embedded in its movie, with two valid
  identifiers, a body whose \<^verbatim>\<open>text\<close> is a string that is not empty, the client there and no
  throw. Let \<open>m\<close> be the first movie with identifier \<open>idMovie\<close>, and let its \<^verbatim>\<open>comments\<close> array
  be \<open>xs @ JObj c # ys\<close> with \<open>c\<close> the first element whose identifier is \<open>idComment\<close>. Then the
  answer is 200 with the message \<^verbatim>\<open>Comment updated successfully\<close> and no \<^verbatim>\<open>data\<close>, and the
  database changes in this only: in \<open>c\<close> the members \<^verbatim>\<open>text\<close> and \<^verbatim>\<open>updatedAt\<close> are set. The
  elements \<open>xs\<close> and \<open>ys\<close>, the other fields of \<open>m\<close>, the other movies and the other
  collections are what they were.
\<close>

theorem put_embedded_comment_frame:
  assumes "ObjectId_isValid idMovie" and "ObjectId_isValid idComment"
    and "clientPromise e = Inr ()"
    and "json r = Inr (JObj kvs)"
    and "map_of kvs ''text'' = Some (JStr t)" and "t \<noteq> []"
    and "throws e (UpdateOne Movies
           [(Fld ''_id'', ObjectId_new idMovie), (Elem ''comments'' ''_id'', ObjectId_new idComment)]
           [(Elem ''comments'' ''text'', JStr t), (Elem ''comments'' ''updatedAt'', JDate (now e))])
         = None"
    and "movies (db s) = pre @ m # post"
    and "\<forall>d \<in> set pre. map_of d ''_id'' \<noteq> Some (ObjectId_new idMovie)"
    and "map_of m ''_id'' = Some (ObjectId_new idMovie)"
    and "map_of m ''comments'' = Some (JArr (xs @ JObj c # ys))"
    and "\<forall>x \<in> set xs. \<not> elem_has ''_id'' (ObjectId_new idComment) x"
    and "map_of c ''_id'' = Some (ObjectId_new idComment)"
  shows "part_002_PUT e r idMovie idComment s =
           (\<lparr>transport = 200,
             body = \<lparr>status = 200, message = Some ''Comment updated successfully'',
                     error = None, data = None\<rparr>\<rparr>,
            \<lparr>calls = calls s @ [UpdateOne Movies
               [(Fld ''_id'', ObjectId_new idMovie),
                (Elem ''comments'' ''_id'', ObjectId_new idComment)]
               [(Elem ''comments'' ''text'', JStr t),
                (Elem ''comments'' ''updatedAt'', JDate (now e))]],
             db = (db s)\<lparr>movies :=
               pre @ AList.update ''comments''
                       (JArr (xs @ JObj (AList.update ''text'' (JStr t)
                                (AList.update ''updatedAt'' (JDate (now e)) c)) # ys)) m
                   # post\<rparr>\<rparr>)"
proof -
  let ?q = "[(Fld ''_id'', ObjectId_new idMovie), (Elem ''comments'' ''_id'', ObjectId_new idComment)]"
  let ?u = "[(Elem ''comments'' ''text'', JStr t), (Elem ''comments'' ''updatedAt'', JDate (now e))]"
  have here: "elem_has ''_id'' (ObjectId_new idComment) (JObj c)"
    using assms(13) by (simp add: elem_has_def)
  have m: "matches ?q m"
    using assms(10,11) here by simp
  have pre: "\<forall>d \<in> set pre. \<not> matches ?q d"
    using assms(9) by simp
  have pos: "positional ?q m = Some (length xs)"
    using assms(11,12) here by (simp add: index_of_split)
  have upd: "apply_set ?q ?u m =
      AList.update ''comments''
        (JArr (xs @ JObj (AList.update ''text'' (JStr t)
                 (AList.update ''updatedAt'' (JDate (now e)) c)) # ys)) m"
    unfolding apply_set_def pos using assms(11)
    by (simp add: update_conv')
  have docs: "update_first (matches ?q) (apply_set ?q ?u) (movies (db s)) =
      pre @ apply_set ?q ?u m # post"
    unfolding assms(8) using pre m by (rule update_first_split)
  have ex: "list_ex (matches ?q) (movies (db s))"
    unfolding assms(8) using m by (simp del: matches_Cons)
  show ?thesis
    using assms(1-7) docs ex
    by (simp add: part_002_PUT_def io_defs upd Let_def del: matches_Cons)
qed

theorem put_embedded_comment_frame_witness:
  "part_002_PUT env_ok \<lparr>json = Inr (JObj [(''text'', JStr ''updated'')])\<rparr> movie_a comment_x
       store_sample =
     (\<lparr>transport = 200,
       body = \<lparr>status = 200, message = Some ''Comment updated successfully'',
               error = None, data = None\<rparr>\<rparr>,
      \<lparr>calls = [UpdateOne Movies
                  [(Fld ''_id'', JOid movie_a), (Elem ''comments'' ''_id'', JOid comment_x)]
                  [(Elem ''comments'' ''text'', JStr ''updated''),
                   (Elem ''comments'' ''updatedAt'', JDate 1000)]],
       db = \<lparr>theaters = [doc_theater_t],
              movies = [[(''_id'', JOid movie_a), (''title'', JStr ''Blacksmith Scene''),
                         (''comments'', JArr
                            [JObj [(''_id'', JOid comment_y), (''text'', JStr ''first'')],
                             JObj [(''_id'', JOid comment_x), (''text'', JStr ''updated''),
                                   (''updatedAt'', JDate 1000)]])]],
              comments = [doc_comment_x]\<rparr>\<rparr>)"
  using put_embedded_comment_frame
    [where idMovie = movie_a and idComment = comment_x and e = env_ok
       and r = "\<lparr>json = Inr (JObj [(''text'', JStr ''updated'')])\<rparr>"
       and kvs = "[(''text'', JStr ''updated'')]" and t = "''updated''"
       and s = store_sample and pre = "[]" and m = doc_movie_a and post = "[]"
       and xs = "[JObj [(''_id'', JOid comment_y), (''text'', JStr ''first'')]]"
       and c = "[(''_id'', JOid comment_x), (''text'', JStr ''second'')]" and ys = "[]"]
  by (simp add: id_defs elem_has_def)

text \<open>
  C4 as stated takes any string for \<^verbatim>\<open>text\<close>. The empty string is a string, and
  \<^verbatim>\<open>!body.text\<close> is true of it: the answer is 400 and nothing is written.
\<close>

theorem put_embedded_rejects_empty_text:
  "part_002_PUT env_ok \<lparr>json = Inr (JObj [(''text'', JStr [])])\<rparr> movie_a comment_x
       store_sample =
     (\<lparr>transport = 400,
       body = \<lparr>status = 400, message = Some ''Invalid input'',
               error = Some ''Comment text is required and must be a string'',
               data = None\<rparr>\<rparr>,
      store_sample)"
  by (simp add: part_002_PUT_def io_defs id_defs)

section \<open>The two sources of \<^verbatim>\<open>GET /theaters/{idTheater}\<close>\<close>

text \<open>
  C9, as amended. For every identifier, database and behaviour of the store, the two source
  files of \<^verbatim>\<open>GET /theaters/{idTheater}\<close> answer with the same body status, one of 200, 400, 404
  and 500, and the same \<^verbatim>\<open>data\<close>, and issue the same store calls; one always has transport
  status 200, the other has the body status as transport status. With status 200 or 500 the
  two bodies are equal. With status 400 they differ in the message, \<^verbatim>\<open>Invalid Theaters ID\<close>
  against \<^verbatim>\<open>Invalid theater ID\<close>; with status 404 they differ in the error,
  \<^verbatim>\<open>No Theater found with the given ID\<close> against \<^verbatim>\<open>No theater found with the given ID\<close>. When the
  client is there and \<^verbatim>\<open>findOne\<close> does not throw, the status is 400 for an invalid identifier,
  404 when no theater has the identifier, and 200 with the theater as \<^verbatim>\<open>data.theater\<close>
  otherwise.
\<close>

theorem theater_variants_agree:
  "status (body (fst (theater_GET e idTheater s))) =
     status (body (fst (part_001_GET e idTheater s))) \<and>
   data (body (fst (theater_GET e idTheater s))) =
     data (body (fst (part_001_GET e idTheater s))) \<and>
   snd (theater_GET e idTheater s) = snd (part_001_GET e idTheater s) \<and>
   transport (fst (theater_GET e idTheater s)) = 200 \<and>
   transport (fst (part_001_GET e idTheater s)) =
     status (body (fst (part_001_GET e idTheater s))) \<and>
   status (body (fst (part_001_GET e idTheater s))) \<in> {200, 400, 404, 500} \<and>
   (status (body (fst (part_001_GET e idTheater s))) \<in> {200, 500} \<longrightarrow>
    body (fst (theater_GET e idTheater s)) = body (fst (part_001_GET e idTheater s))) \<and>
   (status (body (fst (part_001_GET e idTheater s))) = 400 \<longrightarrow>
    body (fst (theater_GET e idTheater s)) =
      \<lparr>status = 400, message = Some ''Invalid Theaters ID'',
       error = Some ''ID format is incorrect'', data = None\<rparr> \<and>
    body (fst (part_001_GET e idTheater s)) =
      \<lparr>status = 400, message = Some ''Invalid theater ID'',
       error = Some ''ID format is incorrect'', data = None\<rparr>) \<and>
   (status (body (fst (part_001_GET e idTheater s))) = 404 \<longrightarrow>
    body (fst (theater_GET e idTheater s)) =
      \<lparr>status = 404, message = Some ''Theater not found'',
       error = Some ''No Theater found with the given ID'', data = None\<rparr> \<and>
    body (fst (part_001_GET e idTheater s)) =
      \<lparr>status = 404, message = Some ''Theater not found'',
       error = Some ''No theater found with the given ID'', data = None\<rparr>) \<and>
   (clientPromise e = Inr () \<and>
    throws e (FindOne Theaters [(Fld ''_id'', ObjectId_new idTheater)]) = None \<longrightarrow>
    status (body (fst (part_001_GET e idTheater s))) =
      (if \<not> ObjectId_isValid idTheater then 400
       else case List.find (\<lambda>t. map_of t ''_id'' = Some (ObjectId_new idTheater))
                   (theaters (db s)) of
              None \<Rightarrow> 404
            | Some t \<Rightarrow> 200) \<and>
    data (body (fst (part_001_GET e idTheater s))) =
      (if \<not> ObjectId_isValid idTheater then None
       else case List.find (\<lambda>t. map_of t ''_id'' = Some (ObjectId_new idTheater))
                   (theaters (db s)) of
              None \<Rightarrow> None
            | Some t \<Rightarrow> Some (JObj [(''theater'', JObj t)])))"
proof (cases "clientPromise e")
  case (Inl msg)
  then show ?thesis
    by (simp add: theater_GET_def part_001_GET_def io_defs)
next
  case (Inr u)
  show ?thesis
  proof (cases "ObjectId_isValid idTheater")
    case False
    with Inr show ?thesis
      by (simp add: theater_GET_def part_001_GET_def io_defs)
  next
    case True
    show ?thesis
    proof (cases "throws e (FindOne Theaters [(Fld ''_id'', ObjectId_new idTheater)])")
      case (Some msg)
      with Inr True show ?thesis
        by (simp add: theater_GET_def part_001_GET_def io_defs)
    next
      case None
      show ?thesis
      proof (cases "List.find (\<lambda>t. map_of t ''_id'' = Some (ObjectId_new idTheater))
                      (theaters (db s))")
        case absent: None
        with Inr True None show ?thesis
          by (simp add: theater_GET_def part_001_GET_def io_defs)
      next
        case (Some t)
        with Inr True None show ?thesis
          by (simp add: theater_GET_def part_001_GET_def io_defs)
      qed
    qed
  qed
qed

theorem theater_variants_agree_witness:
  "body (fst (theater_GET env_ok theater_t store_sample)) =
     body (fst (part_001_GET env_ok theater_t store_sample)) \<and>
   status (body (fst (part_001_GET env_ok theater_t store_sample))) = 200 \<and>
   body (fst (theater_GET env_ok movie_a store_sample)) =
     \<lparr>status = 404, message = Some ''Theater not found'',
      error = Some ''No Theater found with the given ID'', data = None\<rparr> \<and>
   body (fst (part_001_GET env_ok movie_a store_sample)) =
     \<lparr>status = 404, message = Some ''Theater not found'',
      error = Some ''No theater found with the given ID'', data = None\<rparr> \<and>
   body (fst (theater_GET env_ok ''not-an-id'' store_sample)) =
     \<lparr>status = 400, message = Some ''Invalid Theaters ID'',
      error = Some ''ID format is incorrect'', data = None\<rparr> \<and>
   body (fst (part_001_GET env_ok ''not-an-id'' store_sample)) =
     \<lparr>status = 400, message = Some ''Invalid theater ID'',
      error = Some ''ID format is incorrect'', data = None\<rparr> \<and>
   body (fst (theater_GET
       \<lparr>clientPromise = Inl ''ECONNREFUSED'', throws = (\<lambda>c. None), now = 1000\<rparr>
       theater_t store_sample)) =
     body (fst (part_001_GET
       \<lparr>clientPromise = Inl ''ECONNREFUSED'', throws = (\<lambda>c. None), now = 1000\<rparr>
       theater_t store_sample)) \<and>
   status (body (fst (part_001_GET
       \<lparr>clientPromise = Inl ''ECONNREFUSED'', throws = (\<lambda>c. None), now = 1000\<rparr>
       theater_t store_sample))) = 500"
proof -
  let ?down = "\<lparr>clientPromise = Inl ''ECONNREFUSED'', throws = (\<lambda>c. None), now = 1000\<rparr>"
  have ids: "ObjectId_isValid theater_t" "ObjectId_isValid movie_a"
    "\<not> ObjectId_isValid ''not-an-id''"
    "ObjectId_new theater_t = JOid theater_t" "ObjectId_new movie_a = JOid movie_a"
    by (simp_all add: id_defs)
  have found: "status (body (fst (part_001_GET env_ok theater_t store_sample))) = 200"
    by (simp add: part_001_GET_def io_defs ids)
  have absent: "status (body (fst (part_001_GET env_ok movie_a store_sample))) = 404"
    by (simp add: part_001_GET_def io_defs ids)
  have invalid: "status (body (fst (part_001_GET env_ok ''not-an-id'' store_sample))) = 400"
    by (simp add: part_001_GET_def io_defs ids)
  have down: "status (body (fst (part_001_GET ?down theater_t store_sample))) = 500"
    by (simp add: part_001_GET_def io_defs)
  have in200: "status (body (fst (part_001_GET env_ok theater_t store_sample))) \<in> {200, 500}"
    using found by simp
  have in500: "status (body (fst (part_001_GET ?down theater_t store_sample))) \<in> {200, 500}"
    using down by simp
  have w200: "body (fst (theater_GET env_ok theater_t store_sample)) =
      body (fst (part_001_GET env_ok theater_t store_sample))"
    using theater_variants_agree [of env_ok theater_t store_sample] in200 by blast
  have w404: "body (fst (theater_GET env_ok movie_a store_sample)) =
      \<lparr>status = 404, message = Some ''Theater not found'',
       error = Some ''No Theater found with the given ID'', data = None\<rparr> \<and>
    body (fst (part_001_GET env_ok movie_a store_sample)) =
      \<lparr>status = 404, message = Some ''Theater not found'',
       error = Some ''No theater found with the given ID'', data = None\<rparr>"
    using theater_variants_agree [of env_ok movie_a store_sample] absent by blast
  have w400: "body (fst (theater_GET env_ok ''not-an-id'' store_sample)) =
      \<lparr>status = 400, message = Some ''Invalid Theaters ID'',
       error = Some ''ID format is incorrect'', data = None\<rparr> \<and>
    body (fst (part_001_GET env_ok ''not-an-id'' store_sample)) =
      \<lparr>status = 400, message = Some ''Invalid theater ID'',
       error = Some ''ID format is incorrect'', data = None\<rparr>"
    using theater_variants_agree [of env_ok "''not-an-id''" store_sample] invalid by blast
  have w500: "body (fst (theater_GET ?down theater_t store_sample)) =
      body (fst (part_001_GET ?down theater_t store_sample))"
    using theater_variants_agree [of ?down theater_t store_sample] in500 by blast
  from w200 found w404 w400 w500 down show ?thesis by blast
qed

text \<open>
  C9 as stated has the two differ in the transport status only. Their bodies differ too,
  in the wording of the messages: \<^verbatim>\<open>Invalid Theaters ID\<close> against \<^verbatim>\<open>Invalid theater ID\<close>.
\<close>

theorem theater_variants_word_messages_differently:
  "body (fst (theater_GET env_ok ''not-an-id'' store_sample)) =
     \<lparr>status = 400, message = Some ''Invalid Theaters ID'',
      error = Some ''ID format is incorrect'', data = None\<rparr> \<and>
   body (fst (part_001_GET env_ok ''not-an-id'' store_sample)) =
     \<lparr>status = 400, message = Some ''Invalid theater ID'',
      error = Some ''ID format is incorrect'', data = None\<rparr> \<and>
   body (fst (theater_GET env_ok ''not-an-id'' store_sample)) \<noteq>
     body (fst (part_001_GET env_ok ''not-an-id'' store_sample))"
  by (simp add: theater_GET_def part_001_GET_def io_defs id_defs)

section \<open>Identifiers are checked before the store is asked\<close>

text \<open>
  Whatever else happens, a handler given an identifier that is not valid issues no store
  call and leaves the database as it was.
\<close>

lemma invalid_id_no_store_call:
  "\<not> ObjectId_isValid i \<Longrightarrow> snd (theater_GET e i s) = s"
  "\<not> ObjectId_isValid i \<Longrightarrow> snd (part_001_GET e i s) = s"
  "\<not> ObjectId_isValid i \<Longrightarrow> snd (comments_GET e i s) = s"
  "\<not> ObjectId_isValid m \<or> \<not> ObjectId_isValid c \<Longrightarrow> snd (comment_GET e m c s) = s"
  "\<not> ObjectId_isValid m \<or> \<not> ObjectId_isValid c \<Longrightarrow> snd (comment_POST e r m c s) = s"
  "\<not> ObjectId_isValid m \<or> \<not> ObjectId_isValid c \<Longrightarrow> snd (comment_DELETE e m c s) = s"
  "\<not> ObjectId_isValid m \<or> \<not> ObjectId_isValid c \<Longrightarrow> snd (comment_PUT e r m c s) = s"
  "\<not> ObjectId_isValid m \<or> \<not> ObjectId_isValid c \<Longrightarrow> snd (part_002_GET e m c s) = s"
  "\<not> ObjectId_isValid m \<or> \<not> ObjectId_isValid c \<Longrightarrow> snd (part_002_POST e r m c s) = s"
  "\<not> ObjectId_isValid m \<or> \<not> ObjectId_isValid c \<Longrightarrow> snd (part_002_DELETE e m c s) = s"
  "\<not> ObjectId_isValid m \<or> \<not> ObjectId_isValid c \<Longrightarrow> snd (part_002_PUT e r m c s) = s"
  by (auto simp: handler_defs io_defs split: sum.splits)

text \<open>
  The answer is 400 once the handler reaches its checks: the handlers that await the client
  first need the client, and the \<^verbatim>\<open>PUT\<close> of \<^verbatim>\<open>part_002\<close>, which awaits \<^verbatim>\<open>request.json()\<close> before
  it looks at the identifiers, needs a body that parses.
\<close>

lemma invalid_id_answers_400:
  "\<not> ObjectId_isValid i \<Longrightarrow> clientPromise e = Inr () \<Longrightarrow>
     status (body (fst (theater_GET e i s))) = 400"
  "\<not> ObjectId_isValid i \<Longrightarrow> clientPromise e = Inr () \<Longrightarrow>
     status (body (fst (part_001_GET e i s))) = 400"
  "\<not> ObjectId_isValid i \<Longrightarrow> clientPromise e = Inr () \<Longrightarrow>
     status (body (fst (comments_GET e i s))) = 400"
  "\<not> ObjectId_isValid m \<or> \<not> ObjectId_isValid c \<Longrightarrow> clientPromise e = Inr () \<Longrightarrow>
     status (body (fst (comment_GET e m c s))) = 400"
  "\<not> ObjectId_isValid m \<or> \<not> ObjectId_isValid c \<Longrightarrow>
     status (body (fst (comment_POST e r m c s))) = 400"
  "\<not> ObjectId_isValid m \<or> \<not> ObjectId_isValid c \<Longrightarrow> clientPromise e = Inr () \<Longrightarrow>
     status (body (fst (comment_DELETE e m c s))) = 400"
  "\<not> ObjectId_isValid m \<or> \<not> ObjectId_isValid c \<Longrightarrow>
     status (body (fst (comment_PUT e r m c s))) = 400"
  "\<not> ObjectId_isValid m \<or> \<not> ObjectId_isValid c \<Longrightarrow> clientPromise e = Inr () \<Longrightarrow>
     status (body (fst (part_002_GET e m c s))) = 400"
  "\<not> ObjectId_isValid m \<or> \<not> ObjectId_isValid c \<Longrightarrow>
     status (body (fst (part_002_POST e r m c s))) = 400"
  "\<not> ObjectId_isValid m \<or> \<not> ObjectId_isValid c \<Longrightarrow> clientPromise e = Inr () \<Longrightarrow>
     status (body (fst (part_002_DELETE e m c s))) = 400"
  "\<not> ObjectId_isValid m \<or> \<not> ObjectId_isValid c \<Longrightarrow> clientPromise e = Inr () \<Longrightarrow>
     json r = Inr b \<Longrightarrow> status (body (fst (part_002_PUT e r m c s))) = 400"
  by (auto simp: handler_defs io_defs)

text \<open>
  C1. The claim is that an identifier which is not 24 hexadecimal characters always gets
  400. The \<^verbatim>\<open>PUT\<close> of \<^verbatim>\<open>part_002\<close> with such an identifier and a body that does not parse
  answers 500: \<^verbatim>\<open>request.json()\<close> throws before the identifiers are looked at. The \<^verbatim>\<open>POST\<close> of
  the same file, on the same request, answers 400.
\<close>

theorem put_parses_body_before_validating_ids:
  "part_002_PUT env_ok \<lparr>json = Inl ''Unexpected end of JSON input''\<rparr> ''not-an-id'' comment_x
     store_sample =
     (\<lparr>transport = 500,
       body = \<lparr>status = 500, message = Some ''Internal Server Error'',
               error = Some ''Unexpected end of JSON input'', data = None\<rparr>\<rparr>,
      store_sample)"
  by (simp add: part_002_PUT_def io_defs)

theorem put_parses_body_before_validating_ids_witness:
  "\<not> ObjectId_isValid ''not-an-id'' \<and>
   status (body (fst (part_002_PUT env_ok \<lparr>json = Inl ''Unexpected end of JSON input''\<rparr>
     ''not-an-id'' comment_x store_sample))) = 500 \<and>
   status (body (fst (part_002_POST env_ok \<lparr>json = Inl ''Unexpected end of JSON input''\<rparr>
     ''not-an-id'' comment_x store_sample))) = 400"
  using put_parses_body_before_validating_ids
  by (simp add: part_002_POST_def io_defs id_defs)

end
